theory Spec2Isabelle
  imports Complex_Main "HOL-Library.Word"
begin

section \<open>The quiz page (src/app/page.tsx) as a state machine\<close>

text \<open>
  The page is one React function component. Its state is nine \<open>useState\<close> cells; every
  handler is a closure over the values those cells had in the render that created the
  handler. A handler that awaits (\<open>handleGenerateQuestions\<close>, \<open>handleSubmitAnswer\<close>) therefore
  runs in two parts: the part before the \<open>await\<close>, on the state of the click, and the part
  after it, which still reads the state \<^emph>\<open>captured at the click\<close> but writes into whatever
  the state has become in the meantime. Each part is a function here; the part after the
  \<open>await\<close> takes the captured state and the current state as two arguments. A setter called
  with a value replaces the cell, a setter called with a function (\<open>setScore\<close>) is applied to
  the current cell.

  Not modelled: the DOM (\<open>fileInputRef\<close>), \<open>console\<close> output and the wording of dialogs
  (an \<open>alert\<close> is returned as a value of type \<open>alert\<close>).
\<close>

subsection \<open>JavaScript values\<close>

text \<open>
  An array element is either present or \<open>undefined\<close> (a hole and an out-of-range read both
  give \<open>undefined\<close>; \<open>[...xs]\<close> turns a hole into \<open>undefined\<close>, and \<open>every\<close> calls its
  predicate on \<open>undefined\<close> or skips the hole, which for \<open>result !== null\<close> is the same).
  Reading past the end gives \<open>undefined\<close>; assigning past the end extends the array.
\<close>

datatype 'a slot = Undefined | Item 'a

definition at_index :: "'a slot list \<Rightarrow> nat \<Rightarrow> 'a slot" where
  "at_index xs i = (if i < length xs then xs ! i else Undefined)"

definition assign_index :: "'a slot list \<Rightarrow> nat \<Rightarrow> 'a \<Rightarrow> 'a slot list" where
  "assign_index xs i v =
     (if i < length xs then xs[i := Item v]
      else xs @ replicate (i - length xs) Undefined @ [Item v])"

text \<open>\<open>Array(n).fill(v)\<close>\<close>

definition array_fill :: "nat \<Rightarrow> 'a \<Rightarrow> 'a slot list" where
  "array_fill n v = replicate n (Item v)"

text \<open>
  The \<open>score\<close> field of an evaluator response as JavaScript sees it: a number (a finite
  one, \<open>NaN\<close> or an infinity), or a value of any other type (\<open>undefined\<close> included).
\<close>

datatype js_value = Number real | NaN | PosInfinity | NegInfinity | NotNumber

definition typeof_number :: "js_value \<Rightarrow> bool" where
  "typeof_number v = (case v of NotNumber \<Rightarrow> False | _ \<Rightarrow> True)"

text \<open>Truthiness of a string-valued expression: \<open>null\<close>, \<open>undefined\<close> and \<open>""\<close> are falsy.\<close>

definition truthy_content :: "string option \<Rightarrow> bool" where
  "truthy_content c = (case c of None \<Rightarrow> False | Some t \<Rightarrow> t \<noteq> [])"

definition truthy_answer :: "string slot \<Rightarrow> bool" where
  "truthy_answer a = (case a of Undefined \<Rightarrow> False | Item t \<Rightarrow> t \<noteq> [])"

text \<open>\<open>msg.includes(sub)\<close>\<close>

fun starts_with :: "'a list \<Rightarrow> 'a list \<Rightarrow> bool" where
  "starts_with [] ys = True"
| "starts_with (x # xs) [] = False"
| "starts_with (x # xs) (y # ys) = (x = y \<and> starts_with xs ys)"

fun str_includes :: "'a list \<Rightarrow> 'a list \<Rightarrow> bool" where
  "str_includes sub [] = (sub = [])"
| "str_includes sub (y # ys) = (starts_with sub (y # ys) \<or> str_includes sub ys)"

subsection \<open>The data model\<close>

text \<open>
  Modelled from the spec: the types \<open>GenerateQuestionnaireOutput\<close> and
  \<open>EvaluateAnswerOutput\<close> are declared in ai/flows, which is not among the source files.
  Sections 3 and 6 of the specification give a question as \<open>{question, options, answer}\<close>
  with a list of options, and an evaluation as \<open>{score}\<close>; these are also the only fields
  the page reads. At run time the page does not trust the declared types: it tests the
  response and its question list for \<open>null\<close> and the score for its type, so both may be
  absent or of another type here. A stored evaluation result is the response object
  itself.
\<close>

record Question =
  question :: string
  options :: "string list"
  answer :: string

record EvaluateAnswerOutput =
  evalScore :: js_value

record GenerateQuestionnaireOutput =
  generated :: "Question list option"

record Session =
  pdfContent :: "string option"
  questions :: "Question list option"
  userAnswers :: "string slot list"
  isPdfUploaded :: bool
  evaluationResults :: "EvaluateAnswerOutput option slot list"
  questionCount :: int
  score :: nat
  isLoading :: bool
  isEvaluating :: "bool slot list"

text \<open>
  \<open>score\<close> starts at 0 and only ever has 1 added to it or is set to 0, so it is a
  natural number (a double holds these exactly up to \<open>2^53\<close>). \<open>questionCount\<close> is
  written only by the clamping expression of the count field.

  The initial values of the \<open>useState\<close> cells:
\<close>

definition initialSession :: Session where
  "initialSession =
     \<lparr> pdfContent = None, questions = None, userAnswers = [], isPdfUploaded = False,
       evaluationResults = [], questionCount = 5, score = 0, isLoading = False,
       isEvaluating = [] \<rparr>"

datatype alert =
    NotValidPdf
  | ErrorReadingPdf
  | ErrorReadingPdfAsText
  | GenerateRateLimit
  | GenerateFailed string
  | EvaluateRateLimit
  | EvaluateFailed string

definition isRateLimit :: "string \<Rightarrow> bool" where
  "isRateLimit errorMessage =
     (str_includes ''429'' errorMessage \<or> str_includes ''Too Many Requests'' errorMessage
      \<or> str_includes ''QuotaFailure'' errorMessage)"

subsection \<open>handleClear\<close>

definition handleClear :: "Session \<Rightarrow> Session" where
  "handleClear s =
     s\<lparr> pdfContent := None, questions := None, userAnswers := [], isPdfUploaded := False,
        evaluationResults := [], score := 0, isLoading := False, isEvaluating := [] \<rparr>"

subsection \<open>handleFileUpload\<close>

text \<open>
  A selected file: the bytes \<open>readAsArrayBuffer\<close> delivers and the string \<open>readAsText\<close>
  delivers (the browser's decoding of the same bytes, which is not modelled).
\<close>

record UploadedFile =
  fileBytes :: "8 word list"
  fileText :: string

text \<open>\<open>Number.prototype.toString(16)\<close> on a byte: no padding, lower case.\<close>

definition hexDigit :: "nat \<Rightarrow> char" where
  "hexDigit d = ''0123456789abcdef'' ! d"

definition toString16 :: "8 word \<Rightarrow> string" where
  "toString16 b =
     (if unat b < 16 then [hexDigit (unat b)]
      else [hexDigit (unat b div 16), hexDigit (unat b mod 16)])"

definition pdfHeader :: "8 word list \<Rightarrow> string" where
  "pdfHeader buf = concat (map toString16 (take 4 buf))"

text \<open>The synchronous part: \<open>if (!file) return\<close>, then the resets.\<close>

definition handleFileUpload :: "Session \<Rightarrow> UploadedFile option \<Rightarrow> Session" where
  "handleFileUpload s f =
     (case f of
        None \<Rightarrow> s
      | Some _ \<Rightarrow>
          s\<lparr> isLoading := True, pdfContent := None, questions := None, userAnswers := [],
             evaluationResults := [], score := 0, isPdfUploaded := False \<rparr>)"

text \<open>
  \<open>reader.onload\<close>: \<open>Inl\<close> when the signature check fails (the alert and the cleared
  session), \<open>Inr\<close> when the text reader is started. No statement of the \<open>try\<close> block
  throws on the result of a completed read, so its \<open>catch\<close> has no branch here.
\<close>

definition reader_onload :: "Session \<Rightarrow> 8 word list \<Rightarrow> alert \<times> Session + Session" where
  "reader_onload s buf =
     (if pdfHeader buf \<noteq> ''25504446'' then Inl (NotValidPdf, handleClear s) else Inr s)"

definition reader_onerror :: "Session \<Rightarrow> alert \<times> Session" where
  "reader_onerror s = (ErrorReadingPdf, handleClear s)"

definition textReader_onload :: "Session \<Rightarrow> string \<Rightarrow> Session" where
  "textReader_onload s content =
     s\<lparr> pdfContent := Some content, isPdfUploaded := True, isLoading := False \<rparr>"

definition textReader_onerror :: "Session \<Rightarrow> alert \<times> Session" where
  "textReader_onerror s = (ErrorReadingPdfAsText, handleClear s)"

text \<open>File intake of a file both readers can read: the three parts in sequence.\<close>

definition uploadFile :: "Session \<Rightarrow> UploadedFile \<Rightarrow> alert \<times> Session + Session" where
  "uploadFile s f =
     (case reader_onload (handleFileUpload s (Some f)) (fileBytes f) of
        Inl e \<Rightarrow> Inl e
      | Inr s1 \<Rightarrow> Inr (textReader_onload s1 (fileText f)))"

definition sessionAfter :: "alert \<times> Session + Session \<Rightarrow> Session" where
  "sessionAfter r = (case r of Inl e \<Rightarrow> snd e | Inr s \<Rightarrow> s)"

subsection \<open>The question-count field\<close>

text \<open>
  \<open>parseInt(string)\<close> with no radix, on the UTF-16 code units of the field's value:
  leading white space is dropped, then a sign, then \<open>0x\<close>/\<open>0X\<close> selects radix 16, then
  the longest run of digits is read; no digit gives \<open>NaN\<close> (\<open>None\<close>).

  The result is the mathematical integer. JavaScript rounds it to a double, which changes
  nothing below: rounding is monotone and fixes 0, 1 and 20, so \<open>n || 1\<close>,
  \<open>Math.min(20, _)\<close> and \<open>Math.max(1, _)\<close> give the same value on the rounded number.
\<close>

definition isWhiteSpace :: "nat \<Rightarrow> bool" where
  "isWhiteSpace c =
     (c \<in> {9, 10, 11, 12, 13, 32, 160, 5760, 8232, 8233, 8239, 8287, 12288, 65279}
      \<or> (8192 \<le> c \<and> c \<le> 8202))"

definition digitValue :: "nat \<Rightarrow> nat option" where
  "digitValue c =
     (if 48 \<le> c \<and> c \<le> 57 then Some (c - 48)
      else if 97 \<le> c \<and> c \<le> 122 then Some (c - 87)
      else if 65 \<le> c \<and> c \<le> 90 then Some (c - 55)
      else None)"

definition isRadixDigit :: "nat \<Rightarrow> nat \<Rightarrow> bool" where
  "isRadixDigit R c = (case digitValue c of None \<Rightarrow> False | Some d \<Rightarrow> d < R)"

definition digitsValue :: "nat \<Rightarrow> nat list \<Rightarrow> nat" where
  "digitsValue R ds =
     foldl (\<lambda>acc c. acc * R + (case digitValue c of None \<Rightarrow> 0 | Some d \<Rightarrow> d)) 0 ds"

definition stripSign :: "nat list \<Rightarrow> int \<times> nat list" where
  "stripSign S =
     (case S of
        [] \<Rightarrow> (1, [])
      | c # r \<Rightarrow> if c = 45 then (- 1, r) else if c = 43 then (1, r) else (1, c # r))"

definition stripPrefix :: "nat list \<Rightarrow> nat \<times> nat list" where
  "stripPrefix S =
     (case S of
        a # b # r \<Rightarrow> if a = 48 \<and> (b = 120 \<or> b = 88) then (16, r) else (10, S)
      | _ \<Rightarrow> (10, S))"

definition parseInt :: "nat list \<Rightarrow> int option" where
  "parseInt inputString =
     (let (sign, S) = stripSign (dropWhile isWhiteSpace inputString);
          (R, S') = stripPrefix S;
          Z = takeWhile (isRadixDigit R) S'
      in if Z = [] then None else Some (sign * int (digitsValue R Z)))"

text \<open>\<open>Math.max(1, Math.min(20, parseInt(e.target.value) || 1))\<close>\<close>

definition newQuestionCount :: "nat list \<Rightarrow> int" where
  "newQuestionCount v =
     max 1 (min 20 (case parseInt v of None \<Rightarrow> 1 | Some n \<Rightarrow> if n = 0 then 1 else n))"

definition questionCount_onChange :: "Session \<Rightarrow> nat list \<Rightarrow> Session" where
  "questionCount_onChange s v = s\<lparr> questionCount := newQuestionCount v \<rparr>"

text \<open>The code units of a string literal.\<close>

definition codeUnits :: "string \<Rightarrow> nat list" where
  "codeUnits t = map of_char t"

subsection \<open>handleGenerateQuestions\<close>

text \<open>What the awaited generator call does: it rejects, or resolves with a response.\<close>

datatype generate_outcome =
    GenerateRejects string
  | GenerateResolves "GenerateQuestionnaireOutput option"

definition noQuestionsMessage :: string where
  "noQuestionsMessage = ''No questions were generated. The PDF might be empty, contain only images, or the content might not be suitable for question generation.''"

text \<open>Before the \<open>await\<close>; \<open>None\<close> is the early return on \<open>!pdfContent\<close>.\<close>

definition generate_start :: "Session \<Rightarrow> Session option" where
  "generate_start s =
     (if \<not> truthy_content (pdfContent s) then None
      else Some (s\<lparr> isLoading := True, questions := None, userAnswers := [],
                    evaluationResults := [], score := 0 \<rparr>))"

text \<open>The body of the \<open>try\<close> up to its last throw: the error message, or the questions.\<close>

definition generate_try :: "generate_outcome \<Rightarrow> string + Question list" where
  "generate_try outcome =
     (case outcome of
        GenerateRejects errorMessage \<Rightarrow> Inl errorMessage
      | GenerateResolves None \<Rightarrow> Inl noQuestionsMessage
      | GenerateResolves (Some questionnaire) \<Rightarrow>
          (case generated questionnaire of
             None \<Rightarrow> Inl noQuestionsMessage
           | Some qs \<Rightarrow> if length qs = 0 then Inl noQuestionsMessage else Inr qs))"

text \<open>After the \<open>await\<close>, on the current session: \<open>try\<close>, \<open>catch\<close>, \<open>finally\<close>.\<close>

definition generate_finish :: "generate_outcome \<Rightarrow> Session \<Rightarrow> alert option \<times> Session" where
  "generate_finish outcome s =
     (case generate_try outcome of
        Inr qs \<Rightarrow>
          (None,
           s\<lparr> questions := Some qs,
              userAnswers := array_fill (length qs) [],
              evaluationResults := array_fill (length qs) None,
              isEvaluating := array_fill (length qs) False,
              score := 0,
              isLoading := False \<rparr>)
      | Inl errorMessage \<Rightarrow>
          (Some (if isRateLimit errorMessage then GenerateRateLimit
                 else GenerateFailed errorMessage),
           s\<lparr> questions := None, isLoading := False \<rparr>))"

text \<open>The handler run with nothing happening between its two parts.\<close>

definition handleGenerateQuestions :: "Session \<Rightarrow> generate_outcome \<Rightarrow> alert option \<times> Session" where
  "handleGenerateQuestions s outcome =
     (case generate_start s of
        None \<Rightarrow> (None, s)
      | Some s1 \<Rightarrow> generate_finish outcome s1)"

subsection \<open>handleAnswerChange\<close>

definition handleAnswerChange :: "Session \<Rightarrow> nat \<Rightarrow> string \<Rightarrow> Session" where
  "handleAnswerChange s index answer' =
     s\<lparr> userAnswers := assign_index (userAnswers s) index answer' \<rparr>"

subsection \<open>handleSubmitAnswer\<close>

text \<open>
  What the awaited evaluator call does: it rejects with an error message, or resolves with
  a response (\<open>None\<close>: \<open>null\<close> or \<open>undefined\<close>). The second argument of a resolution is
  \<open>JSON.stringify\<close> of the response, which the error message of an invalid response quotes.
\<close>

datatype evaluate_outcome =
    EvaluateRejects string
  | EvaluateResolves "EvaluateAnswerOutput option" string

text \<open>\<open>questions?.[index]\<close> is truthy: the list exists and has the index.\<close>

definition question_at :: "Session \<Rightarrow> nat \<Rightarrow> Question option" where
  "question_at s index =
     (case questions s of
        None \<Rightarrow> None
      | Some qs \<Rightarrow> if index < length qs then Some (qs ! index) else None)"

text \<open>Before the \<open>await\<close>; \<open>None\<close> is the early return when a precondition is not met.\<close>

definition submit_start :: "Session \<Rightarrow> nat \<Rightarrow> Session option" where
  "submit_start s index =
     (if \<not> truthy_content (pdfContent s) \<or> question_at s index = None
         \<or> \<not> truthy_answer (at_index (userAnswers s) index)
      then None
      else Some (s\<lparr> isEvaluating := assign_index (isEvaluating s) index True \<rparr>))"

text \<open>\<open>typeof evaluation?.score === 'number'\<close>\<close>

definition score_is_number :: "EvaluateAnswerOutput option \<Rightarrow> bool" where
  "score_is_number evaluation =
     (case evaluation of None \<Rightarrow> False | Some e \<Rightarrow> typeof_number (evalScore e))"

text \<open>The \<open>try\<close> up to its throw: the error message, or the valid evaluation.\<close>

definition evaluate_try :: "evaluate_outcome \<Rightarrow> string + EvaluateAnswerOutput" where
  "evaluate_try outcome =
     (case outcome of
        EvaluateRejects errorMessage \<Rightarrow> Inl errorMessage
      | EvaluateResolves evaluation json \<Rightarrow>
          (case evaluation of
             None \<Rightarrow> Inl (''Invalid evaluation response received: '' @ json)
           | Some e \<Rightarrow>
               if \<not> typeof_number (evalScore e)
               then Inl (''Invalid evaluation response received: '' @ json)
               else Inr e))"

text \<open>
  After the \<open>await\<close>. \<open>c\<close> is the session captured by the handler's closure (the session
  of the click), \<open>s\<close> the current one. \<open>evaluationResults\<close> and \<open>isEvaluating\<close> are copied
  from \<open>c\<close>; \<open>setScore\<close> is given a function and so increments the current score.
\<close>

definition submit_finish :: "Session \<Rightarrow> nat \<Rightarrow> evaluate_outcome \<Rightarrow> Session \<Rightarrow> alert option \<times> Session" where
  "submit_finish c index outcome s =
     (case evaluate_try outcome of
        Inr evaluation \<Rightarrow>
          (let s1 = s\<lparr> evaluationResults :=
                          assign_index (evaluationResults c) index (Some evaluation) \<rparr>;
               s2 = (if evalScore evaluation = Number 1 then s1\<lparr> score := score s1 + 1 \<rparr>
                     else s1)
           in (None, s2\<lparr> isEvaluating := assign_index (isEvaluating c) index False \<rparr>))
      | Inl errorMessage \<Rightarrow>
          (Some (if isRateLimit errorMessage then EvaluateRateLimit
                 else EvaluateFailed errorMessage),
           s\<lparr> isEvaluating := assign_index (isEvaluating c) index False \<rparr>))"

text \<open>The handler run with nothing happening between its two parts.\<close>

definition handleSubmitAnswer :: "Session \<Rightarrow> nat \<Rightarrow> evaluate_outcome \<Rightarrow> alert option \<times> Session" where
  "handleSubmitAnswer s index outcome =
     (case submit_start s index of
        None \<Rightarrow> (None, s)
      | Some s1 \<Rightarrow> submit_finish s index outcome s1)"

subsection \<open>allAnswersEvaluated\<close>


subsection \<open>What the rendered controls allow\<close>

text \<open>The \<open>disabled\<close> expressions of the JSX, and the conditions under which a control is rendered.\<close>

definition fileInputDisabled :: "Session \<Rightarrow> bool" where
  "fileInputDisabled s = isLoading s"

definition questionCountDisabled :: "Session \<Rightarrow> bool" where
  "questionCountDisabled s = (isLoading s \<or> questions s \<noteq> None)"

definition generateDisabled :: "Session \<Rightarrow> bool" where
  "generateDisabled s = (\<not> isPdfUploaded s \<or> isLoading s)"

definition clearAvailable :: "Session \<Rightarrow> bool" where
  "clearAvailable s = ((isPdfUploaded s \<or> questions s \<noteq> None) \<and> \<not> isLoading s)"

definition optionsInvalid :: "Question \<Rightarrow> bool" where
  "optionsInvalid q = (length (options q) \<noteq> 4)"

definition radioDisabled :: "Session \<Rightarrow> nat \<Rightarrow> bool" where
  "radioDisabled s index =
     (at_index (evaluationResults s) index \<noteq> Item None
      \<or> at_index (isEvaluating s) index = Item True)"

definition submitDisabled :: "Session \<Rightarrow> nat \<Rightarrow> bool" where
  "submitDisabled s index =
     (\<not> truthy_answer (at_index (userAnswers s) index)
      \<or> at_index (evaluationResults s) index \<noteq> Item None
      \<or> at_index (isEvaluating s) index = Item True
      \<or> (case question_at s index of None \<Rightarrow> True | Some q \<Rightarrow> optionsInvalid q))"

text \<open>
  Modelled from the spec: the \<open>RadioGroup\<close> component (components/ui/radio-group) is not
  among the source files. Following section 4.3 of the specification (selection is allowed
  only before the index has a result and while it is not being evaluated), a group that is
  not rendered or is disabled delivers no \<open>onValueChange\<close>; otherwise the page's handler
  \<open>handleAnswerChange\<close> runs. The group of question \<open>index\<close> is rendered when the question
  exists and has four options.
\<close>

definition selectAnswer :: "Session \<Rightarrow> nat \<Rightarrow> string \<Rightarrow> Session" where
  "selectAnswer s index v =
     (case question_at s index of
        None \<Rightarrow> s
      | Some q \<Rightarrow>
          if optionsInvalid q \<or> radioDisabled s index then s
          else handleAnswerChange s index v)"

text \<open>The invariant of the data model: one slot per question in each array.\<close>

definition lengthsAgree :: "Session \<Rightarrow> bool" where
  "lengthsAgree s =
     (case questions s of
        None \<Rightarrow> True
      | Some qs \<Rightarrow>
          length (userAnswers s) = length qs \<and> length (evaluationResults s) = length qs
          \<and> length (isEvaluating s) = length qs)"

subsection \<open>Concrete sessions and files\<close>

definition sampleQuestion :: Question where
  "sampleQuestion =
     \<lparr> question = ''Q'', options = [''a'', ''b'', ''c'', ''d''], answer = ''a'' \<rparr>"

text \<open>One question, answered and evaluated as correct.\<close>

definition answeredSession :: Session where
  "answeredSession =
     \<lparr> pdfContent = Some ''%PDF-1.4 text'', questions = Some [sampleQuestion],
       userAnswers = [Item ''a''], isPdfUploaded = True,
       evaluationResults = [Item (Some \<lparr> evalScore = Number 1 \<rparr>)], questionCount = 1,
       score = 1, isLoading = False, isEvaluating = [Item False] \<rparr>"

definition pdfFile :: UploadedFile where
  "pdfFile = \<lparr> fileBytes = [0x25, 0x50, 0x44, 0x46, 0x2D, 0x31], fileText = ''%PDF-1.4 text'' \<rparr>"

definition zipFile :: UploadedFile where
  "zipFile = \<lparr> fileBytes = [0x50, 0x4B, 0x03, 0x04], fileText = ''PK'' \<rparr>"

definition unevaluatedSession :: Session where
  "unevaluatedSession =
     \<lparr> pdfContent = Some ''%PDF-1.4 text'', questions = Some [sampleQuestion],
       userAnswers = [Item ''a''], isPdfUploaded = True,
       evaluationResults = [Item None], questionCount = 1,
       score = 0, isLoading = False, isEvaluating = [Item False] \<rparr>"

definition correctResponse :: evaluate_outcome where
  "correctResponse = EvaluateResolves (Some \<lparr> evalScore = Number 1 \<rparr>) ''{}''"

definition evaluatingSession :: Session where
  "evaluatingSession =
     \<lparr> pdfContent = Some ''%PDF-1.4 text'', questions = Some [sampleQuestion],
       userAnswers = [Item ''a''], isPdfUploaded = True,
       evaluationResults = [Item None], questionCount = 1,
       score = 0, isLoading = False, isEvaluating = [Item True] \<rparr>"

definition twoQuestions :: generate_outcome where
  "twoQuestions =
     GenerateResolves (Some \<lparr> generated = Some [sampleQuestion, sampleQuestion] \<rparr>)"

definition oneQuestion :: generate_outcome where
  "oneQuestion = GenerateResolves (Some \<lparr> generated = Some [sampleQuestion] \<rparr>)"

text \<open>The session once the part of \<open>handleSubmitAnswer\<close> before the \<open>await\<close> has run.\<close>

definition submit_started :: "Session \<Rightarrow> nat \<Rightarrow> Session" where
  "submit_started s index = (case submit_start s index of None \<Rightarrow> s | Some s1 \<Rightarrow> s1)"

text \<open>
  A run of the page. A PDF is uploaded, the count is set to 2, two questions are
  generated and the first is answered: \<open>firstQuiz\<close>. The answer is submitted; while the
  evaluator is busy the user clears the page, uploads again, sets the count to 1 and
  generates one question: \<open>secondQuiz\<close>. Then the evaluator's answer to the submission
  arrives, and the rest of the handler runs with the arrays of \<open>firstQuiz\<close> in its closure:
  \<open>lateEvaluation\<close>.
\<close>

definition firstQuiz :: Session where
  "firstQuiz =
     handleAnswerChange
       (snd (handleGenerateQuestions
          (questionCount_onChange (sessionAfter (uploadFile initialSession pdfFile))
             (codeUnits ''2''))
          twoQuestions))
       0 ''a''"

definition secondQuiz :: Session where
  "secondQuiz =
     snd (handleGenerateQuestions
        (questionCount_onChange
           (sessionAfter (uploadFile (handleClear (submit_started firstQuiz 0)) pdfFile))
           (codeUnits ''1''))
        oneQuestion)"

definition lateEvaluation :: Session where
  "lateEvaluation = snd (submit_finish firstQuiz 0 correctResponse secondQuiz)"

definition bothAnswered :: Session where
  "bothAnswered = handleAnswerChange firstQuiz 1 ''b''"

text \<open>
  Both answers of \<open>bothAnswered\<close> are submitted before either evaluation returns
  (\<open>bothSubmitted\<close>); the evaluation of the second returns first (\<open>secondReturned\<close>),
  then that of the first (\<open>bothReturned\<close>).
\<close>

definition bothSubmitted :: Session where
  "bothSubmitted = submit_started (submit_started bothAnswered 0) 1"

definition secondReturned :: Session where
  "secondReturned =
     snd (submit_finish (submit_started bothAnswered 0) 1 correctResponse bothSubmitted)"

definition bothReturned :: Session where
  "bothReturned = snd (submit_finish bothAnswered 0 correctResponse secondReturned)"

section \<open>Properties\<close>

lemma handleClear_fields:
  "pdfContent (handleClear s) = None"
  "questions (handleClear s) = None"
  "userAnswers (handleClear s) = []"
  "evaluationResults (handleClear s) = []"
  "score (handleClear s) = 0"
  "isPdfUploaded (handleClear s) = False"
  "isEvaluating (handleClear s) = []"
  "isLoading (handleClear s) = False"
  "questionCount (handleClear s) = questionCount s"
  by (simp_all add: handleClear_def)

subsection \<open>Clearing\<close>

text \<open>
  C8. \<open>handleClear\<close> has no failing branch and, from every session, gives
  \<open>pdfContent = null\<close>, \<open>questions = null\<close>, \<open>userAnswers = []\<close>,
  \<open>evaluationResults = []\<close>, \<open>score = 0\<close>, \<open>isPdfUploaded = false\<close>,
  \<open>isEvaluating = []\<close> and \<open>isLoading = false\<close>.
\<close>

theorem clear_yields_empty:
  "pdfContent (handleClear s) = None \<and> questions (handleClear s) = None
   \<and> userAnswers (handleClear s) = [] \<and> evaluationResults (handleClear s) = []
   \<and> score (handleClear s) = 0 \<and> isPdfUploaded (handleClear s) = False
   \<and> isEvaluating (handleClear s) = [] \<and> isLoading (handleClear s) = False"
  by (simp add: handleClear_def)

theorem clear_yields_empty_witness:
  "score answeredSession = 1 \<and> questions answeredSession \<noteq> None
   \<and> pdfContent (handleClear answeredSession) = None
   \<and> questions (handleClear answeredSession) = None
   \<and> userAnswers (handleClear answeredSession) = []
   \<and> evaluationResults (handleClear answeredSession) = []
   \<and> score (handleClear answeredSession) = 0
   \<and> isPdfUploaded (handleClear answeredSession) = False
   \<and> isEvaluating (handleClear answeredSession) = []
   \<and> isLoading (handleClear answeredSession) = False"
  using clear_yields_empty [of answeredSession] by (simp add: answeredSession_def)

lemma newQuestionCount_7: "newQuestionCount (codeUnits ''7'') = 7"
  by (simp add: newQuestionCount_def codeUnits_def parseInt_def stripSign_def stripPrefix_def
      isWhiteSpace_def isRadixDigit_def digitValue_def digitsValue_def)

text \<open>
  C10. \<open>handleClear\<close> does not touch \<open>questionCount\<close>: after the user has set the
  count and the session is cleared, the session is the initial one except that
  \<open>questionCount\<close> is still the value the user set, not the default 5.
\<close>

theorem clear_keeps_questionCount:
  "questionCount (handleClear s) = questionCount s
   \<and> handleClear (questionCount_onChange s v) =
       initialSession\<lparr> questionCount := newQuestionCount v \<rparr>"
  by (simp add: handleClear_def questionCount_onChange_def initialSession_def)

theorem clear_keeps_questionCount_witness:
  "questionCount (handleClear (questionCount_onChange initialSession (codeUnits ''7''))) = 7
   \<and> handleClear (questionCount_onChange initialSession (codeUnits ''7'')) \<noteq> initialSession"
  using clear_keeps_questionCount
    [of "questionCount_onChange initialSession (codeUnits ''7'')" "codeUnits ''7''"]
  by (simp add: newQuestionCount_7 questionCount_onChange_def initialSession_def)

subsection \<open>File intake\<close>

lemma hexDigit_eq:
  assumes "d < 16"
  shows "hexDigit d = CHR ''2'' \<longleftrightarrow> d = 2"
    and "hexDigit d = CHR ''4'' \<longleftrightarrow> d = 4"
    and "hexDigit d = CHR ''5'' \<longleftrightarrow> d = 5"
    and "hexDigit d = CHR ''6'' \<longleftrightarrow> d = 6"
    and "hexDigit d = CHR ''0'' \<longleftrightarrow> d = 0"
proof -
  from assms have "d = 0 \<or> d = 1 \<or> d = 2 \<or> d = 3 \<or> d = 4 \<or> d = 5 \<or> d = 6 \<or> d = 7 \<or> d = 8
      \<or> d = 9 \<or> d = 10 \<or> d = 11 \<or> d = 12 \<or> d = 13 \<or> d = 14 \<or> d = 15"
    by arith
  then show "hexDigit d = CHR ''2'' \<longleftrightarrow> d = 2"
    and "hexDigit d = CHR ''4'' \<longleftrightarrow> d = 4"
    and "hexDigit d = CHR ''5'' \<longleftrightarrow> d = 5"
    and "hexDigit d = CHR ''6'' \<longleftrightarrow> d = 6"
    and "hexDigit d = CHR ''0'' \<longleftrightarrow> d = 0"
    by (auto simp add: hexDigit_def)
qed

lemma unat_byte: "unat (b :: 8 word) < 256"
  using unsigned_less [of b, where ?'a = nat] by simp

lemma toString16_length: "length (toString16 b) = (if unat b < 16 then 1 else 2)"
  by (simp add: toString16_def)

lemma toString16_unat:
  "toString16 b = [x, y] \<longleftrightarrow>
     16 \<le> unat b \<and> hexDigit (unat b div 16) = x \<and> hexDigit (unat b mod 16) = y"
  by (auto simp add: toString16_def)

lemma div_mod_16_compose: "n div 16 = h \<Longrightarrow> n mod 16 = l \<Longrightarrow> n = 16 * h + (l::nat)"
  using mult_div_mod_eq [of 16 n] by simp

lemma div_mod_16:
  "(16 \<le> n \<and> n div 16 = 2 \<and> n mod 16 = 5) \<longleftrightarrow> n = (37::nat)"
  "(16 \<le> n \<and> n div 16 = 5 \<and> n mod 16 = 0) \<longleftrightarrow> n = (80::nat)"
  "(16 \<le> n \<and> n div 16 = 4 \<and> n mod 16 = 4) \<longleftrightarrow> n = (68::nat)"
  "(16 \<le> n \<and> n div 16 = 4 \<and> n mod 16 = 6) \<longleftrightarrow> n = (70::nat)"
  by (auto dest: div_mod_16_compose)

lemma toString16_signature:
  "toString16 b = ''25'' \<longleftrightarrow> b = 0x25"
  "toString16 b = ''50'' \<longleftrightarrow> b = 0x50"
  "toString16 b = ''44'' \<longleftrightarrow> b = 0x44"
  "toString16 b = ''46'' \<longleftrightarrow> b = 0x46"
proof -
  have hi: "unat b div 16 < 16" using unat_byte [of b] by simp
  have lo: "unat b mod 16 < 16" by simp
  show "toString16 b = ''25'' \<longleftrightarrow> b = 0x25"
    by (simp add: toString16_unat hexDigit_eq [OF hi] hexDigit_eq [OF lo] div_mod_16
        word_unat_eq_iff)
  show "toString16 b = ''50'' \<longleftrightarrow> b = 0x50"
    by (simp add: toString16_unat hexDigit_eq [OF hi] hexDigit_eq [OF lo] div_mod_16
        word_unat_eq_iff)
  show "toString16 b = ''44'' \<longleftrightarrow> b = 0x44"
    by (simp add: toString16_unat hexDigit_eq [OF hi] hexDigit_eq [OF lo] div_mod_16
        word_unat_eq_iff)
  show "toString16 b = ''46'' \<longleftrightarrow> b = 0x46"
    by (simp add: toString16_unat hexDigit_eq [OF hi] hexDigit_eq [OF lo] div_mod_16
        word_unat_eq_iff)
qed

lemma toString16_le2: "length (toString16 b) \<le> 2"
  by (simp add: toString16_length)

lemma header_four:
  "toString16 a @ toString16 b @ toString16 c @ toString16 d = ''25504446''
     \<longleftrightarrow> a = 0x25 \<and> b = 0x50 \<and> c = 0x44 \<and> d = 0x46"
proof
  assume h: "toString16 a @ toString16 b @ toString16 c @ toString16 d = ''25504446''"
  have "length (toString16 a @ toString16 b @ toString16 c @ toString16 d) = 8"
    by (simp only: h) simp
  then have sum: "length (toString16 a) + length (toString16 b) + length (toString16 c)
      + length (toString16 d) = 8"
    by simp
  have la: "length (toString16 a) = 2" and lb: "length (toString16 b) = 2"
    and lc: "length (toString16 c) = 2" and ld: "length (toString16 d) = 2"
    using sum toString16_le2 [of a] toString16_le2 [of b] toString16_le2 [of c]
      toString16_le2 [of d] by arith+
  from h la have a: "toString16 a = ''25''"
    and r1: "toString16 b @ toString16 c @ toString16 d = ''504446''"
    by (simp_all add: append_eq_conv_conj)
  from r1 lb have b: "toString16 b = ''50''" and r2: "toString16 c @ toString16 d = ''4446''"
    by (simp_all add: append_eq_conv_conj)
  from r2 lc have c: "toString16 c = ''44''" and d: "toString16 d = ''46''"
    by (simp_all add: append_eq_conv_conj)
  from a b c d show "a = 0x25 \<and> b = 0x50 \<and> c = 0x44 \<and> d = 0x46"
    by (simp add: toString16_signature)
next
  assume "a = 0x25 \<and> b = 0x50 \<and> c = 0x44 \<and> d = 0x46"
  then show "toString16 a @ toString16 b @ toString16 c @ toString16 d = ''25504446''"
    by (simp add: toString16_def hexDigit_def)
qed

lemma header_short:
  "pdfHeader [] \<noteq> ''25504446''"
  "pdfHeader [a] \<noteq> ''25504446''"
  "pdfHeader [a, b] \<noteq> ''25504446''"
  "pdfHeader [a, b, c] \<noteq> ''25504446''"
proof -
  show "pdfHeader [] \<noteq> ''25504446''" by (simp add: pdfHeader_def)
  have "length (pdfHeader [a]) \<noteq> 8"
    using toString16_le2 [of a] by (simp add: pdfHeader_def)
  then show "pdfHeader [a] \<noteq> ''25504446''" by auto
  have "length (pdfHeader [a, b]) \<noteq> 8"
    using toString16_le2 [of a] toString16_le2 [of b] by (simp add: pdfHeader_def)
  then show "pdfHeader [a, b] \<noteq> ''25504446''" by auto
  have "length (pdfHeader [a, b, c]) \<noteq> 8"
    using toString16_le2 [of a] toString16_le2 [of b] toString16_le2 [of c]
    by (simp add: pdfHeader_def)
  then show "pdfHeader [a, b, c] \<noteq> ''25504446''" by auto
qed

lemma pdfHeader_signature:
  "pdfHeader buf = ''25504446'' \<longleftrightarrow> take 4 buf = [0x25, 0x50, 0x44, 0x46]"
proof (cases buf)
  case Nil
  then show ?thesis using header_short(1) by simp
next
  case (Cons a r1)
  show ?thesis
  proof (cases r1)
    case Nil
    with Cons show ?thesis using header_short(2) [of a] by simp
  next
    case (Cons b r2)
    note c2 = this
    show ?thesis
    proof (cases r2)
      case Nil
      with \<open>buf = a # r1\<close> c2 show ?thesis using header_short(3) [of a b] by simp
    next
      case (Cons c r3)
      note c3 = this
      show ?thesis
      proof (cases r3)
        case Nil
        with \<open>buf = a # r1\<close> c2 c3 show ?thesis using header_short(4) [of a b c] by simp
      next
        case (Cons d r4)
        with \<open>buf = a # r1\<close> c2 c3 show ?thesis
          using header_four [of a b c d] by (simp add: pdfHeader_def)
      qed
    qed
  qed
qed

lemma clear_after_upload: "handleClear (handleFileUpload s f) = handleClear s"
  by (simp add: handleClear_def handleFileUpload_def split: option.splits)

lemma uploadFile_eq:
  "uploadFile s f =
     (if take 4 (fileBytes f) = [0x25, 0x50, 0x44, 0x46]
      then Inr (textReader_onload (handleFileUpload s (Some f)) (fileText f))
      else Inl (NotValidPdf, handleClear s))"
  by (simp add: uploadFile_def reader_onload_def pdfHeader_signature clear_after_upload)

text \<open>
  C5. For a file both readers deliver, intake ends with \<open>isPdfUploaded = true\<close> exactly
  when the first four bytes are \<open>25 50 44 46\<close>; for every other byte sequence the result
  is the "not a valid PDF" alert and the cleared session (\<open>pdfContent = null\<close>, no
  questions, no answers or results, \<open>score = 0\<close>, \<open>isPdfUploaded = false\<close>). The
  comparison of the unpadded hexadecimal string with \<open>"25504446"\<close> accepts no other bytes
  (\<open>pdfHeader_signature\<close>).
\<close>

theorem file_intake_signature:
  "(isPdfUploaded (sessionAfter (uploadFile s f))
      \<longleftrightarrow> take 4 (fileBytes f) = [0x25, 0x50, 0x44, 0x46])
   \<and> (take 4 (fileBytes f) \<noteq> [0x25, 0x50, 0x44, 0x46] \<longrightarrow>
        uploadFile s f = Inl (NotValidPdf, handleClear s)
        \<and> pdfContent (sessionAfter (uploadFile s f)) = None
        \<and> questions (sessionAfter (uploadFile s f)) = None
        \<and> userAnswers (sessionAfter (uploadFile s f)) = []
        \<and> evaluationResults (sessionAfter (uploadFile s f)) = []
        \<and> score (sessionAfter (uploadFile s f)) = 0
        \<and> isPdfUploaded (sessionAfter (uploadFile s f)) = False)"
  by (simp add: uploadFile_eq sessionAfter_def textReader_onload_def handleClear_fields)

theorem file_intake_signature_witness:
  "isPdfUploaded (sessionAfter (uploadFile answeredSession pdfFile))
   \<and> uploadFile answeredSession zipFile = Inl (NotValidPdf, handleClear answeredSession)
   \<and> pdfContent (sessionAfter (uploadFile answeredSession zipFile)) = None
   \<and> questions (sessionAfter (uploadFile answeredSession zipFile)) = None
   \<and> score (sessionAfter (uploadFile answeredSession zipFile)) = 0
   \<and> \<not> isPdfUploaded (sessionAfter (uploadFile answeredSession zipFile))"
proof -
  have valid: "take 4 (fileBytes pdfFile) = [0x25, 0x50, 0x44, 0x46]"
    by (simp add: pdfFile_def)
  have invalid: "take 4 (fileBytes zipFile) \<noteq> [0x25, 0x50, 0x44, 0x46]"
    by (simp add: zipFile_def)
  show ?thesis
    using file_intake_signature [of answeredSession pdfFile]
      file_intake_signature [of answeredSession zipFile] valid invalid
    by blast
qed

subsection \<open>The question count\<close>

lemma newQuestionCount_examples:
  "newQuestionCount (codeUnits ''-5'') = 1"
  "newQuestionCount (codeUnits ''999'') = 20"
  "newQuestionCount (codeUnits ''abc'') = 1"
  "newQuestionCount (codeUnits []) = 1"
  by (simp_all add: newQuestionCount_def codeUnits_def parseInt_def stripSign_def
      stripPrefix_def isWhiteSpace_def isRadixDigit_def digitValue_def digitsValue_def)

text \<open>
  C9. Whatever string the question-count field delivers, the stored \<open>questionCount\<close> is
  an integer between 1 and 20; \<open>"-5"\<close> gives 1, \<open>"999"\<close> gives 20, and \<open>"abc"\<close> and the
  empty string give 1.
\<close>

theorem questionCount_clamped:
  "1 \<le> questionCount (questionCount_onChange s v)
   \<and> questionCount (questionCount_onChange s v) \<le> 20
   \<and> questionCount (questionCount_onChange s (codeUnits ''-5'')) = 1
   \<and> questionCount (questionCount_onChange s (codeUnits ''999'')) = 20
   \<and> questionCount (questionCount_onChange s (codeUnits ''abc'')) = 1
   \<and> questionCount (questionCount_onChange s (codeUnits [])) = 1"
  by (simp add: questionCount_onChange_def newQuestionCount_examples) (simp add: newQuestionCount_def)

theorem questionCount_clamped_witness:
  "questionCount (questionCount_onChange initialSession (codeUnits ''7'')) = 7
   \<and> 1 \<le> questionCount (questionCount_onChange initialSession (codeUnits ''7''))
   \<and> questionCount (questionCount_onChange initialSession (codeUnits ''7'')) \<le> 20
   \<and> questionCount (questionCount_onChange initialSession (codeUnits ''-5'')) = 1"
  using questionCount_clamped [of initialSession "codeUnits ''7''"]
  by (simp add: questionCount_onChange_def newQuestionCount_7)

subsection \<open>Question generation and answer evaluation\<close>

lemma at_index_assign_same: "at_index (assign_index xs i v) i = Item v"
  by (simp add: at_index_def assign_index_def nth_append)

lemma length_assign_index: "length (assign_index xs i v) = max (length xs) (Suc i)"
  by (simp add: assign_index_def)

lemma generate_try_failure:
  "generate_try (GenerateRejects msg) = Inl msg"
  "generate_try (GenerateResolves None) = Inl noQuestionsMessage"
  "generate_try (GenerateResolves (Some \<lparr> generated = None \<rparr>)) = Inl noQuestionsMessage"
  "generate_try (GenerateResolves (Some \<lparr> generated = Some [] \<rparr>)) = Inl noQuestionsMessage"
  by (simp_all add: generate_try_def)

lemma generate_finish_failure:
  "generate_try outcome = Inl msg \<Longrightarrow>
     generate_finish outcome s =
       (Some (if isRateLimit msg then GenerateRateLimit else GenerateFailed msg),
        s\<lparr> questions := None, isLoading := False \<rparr>)"
  by (simp add: generate_finish_def)

text \<open>
  C6. When generation fails (the generator rejects, or resolves with nothing, with no
  question list or with an empty one), an alert is raised, \<open>questions\<close> is \<open>null\<close> and
  \<open>isLoading\<close> is \<open>false\<close>, and \<open>pdfContent\<close> and \<open>isPdfUploaded\<close> are what they
  were: for the part after the \<open>await\<close> on any current session, and for the whole handler
  on the session of the click (where \<open>pdfContent\<close> is present, so that the attempt starts).
\<close>

theorem generation_failure_keeps_file:
  assumes "outcome = GenerateRejects msg \<or> outcome = GenerateResolves None
           \<or> outcome = GenerateResolves (Some \<lparr> generated = None \<rparr>)
           \<or> outcome = GenerateResolves (Some \<lparr> generated = Some [] \<rparr>)"
  shows "fst (generate_finish outcome cur) \<noteq> None
         \<and> questions (snd (generate_finish outcome cur)) = None
         \<and> isLoading (snd (generate_finish outcome cur)) = False
         \<and> pdfContent (snd (generate_finish outcome cur)) = pdfContent cur
         \<and> isPdfUploaded (snd (generate_finish outcome cur)) = isPdfUploaded cur
         \<and> (truthy_content (pdfContent s) \<longrightarrow>
               fst (handleGenerateQuestions s outcome) \<noteq> None
               \<and> questions (snd (handleGenerateQuestions s outcome)) = None
               \<and> isLoading (snd (handleGenerateQuestions s outcome)) = False
               \<and> pdfContent (snd (handleGenerateQuestions s outcome)) = pdfContent s
               \<and> isPdfUploaded (snd (handleGenerateQuestions s outcome)) = isPdfUploaded s)"
proof -
  from assms obtain m where m: "generate_try outcome = Inl m"
    using generate_try_failure by metis
  show ?thesis
    by (simp add: generate_finish_failure [OF m] handleGenerateQuestions_def generate_start_def)
qed

theorem generation_failure_keeps_file_witness:
  "pdfContent (snd (handleGenerateQuestions answeredSession (GenerateRejects ''429 Too Many Requests'')))
     = Some ''%PDF-1.4 text''
   \<and> isPdfUploaded (snd (handleGenerateQuestions answeredSession (GenerateRejects ''429 Too Many Requests'')))
   \<and> questions (snd (handleGenerateQuestions answeredSession (GenerateRejects ''429 Too Many Requests''))) = None
   \<and> \<not> isLoading (snd (handleGenerateQuestions answeredSession (GenerateRejects ''429 Too Many Requests'')))
   \<and> questions (snd (handleGenerateQuestions answeredSession
         (GenerateResolves (Some \<lparr> generated = Some [] \<rparr>)))) = None"
proof -
  have t: "truthy_content (pdfContent answeredSession)"
    by (simp add: answeredSession_def truthy_content_def)
  have p: "pdfContent answeredSession = Some ''%PDF-1.4 text''" "isPdfUploaded answeredSession"
    by (simp_all add: answeredSession_def)
  show ?thesis
    using generation_failure_keeps_file
      [of "GenerateRejects ''429 Too Many Requests''" "''429 Too Many Requests''" answeredSession answeredSession]
      generation_failure_keeps_file
      [of "GenerateResolves (Some \<lparr> generated = Some [] \<rparr>)" "[]" answeredSession answeredSession]
      t p
    by simp
qed

lemma evaluate_try_failure:
  "evaluate_try (EvaluateRejects msg) = Inl msg"
  "\<not> score_is_number ev \<Longrightarrow>
     evaluate_try (EvaluateResolves ev json) = Inl (''Invalid evaluation response received: '' @ json)"
  by (auto simp add: evaluate_try_def score_is_number_def split: option.splits)

lemma evaluate_try_success:
  "typeof_number (evalScore ev) \<Longrightarrow> evaluate_try (EvaluateResolves (Some ev) json) = Inr ev"
  by (simp add: evaluate_try_def)

lemma submit_finish_failure:
  "evaluate_try outcome = Inl msg \<Longrightarrow>
     submit_finish c index outcome s =
       (Some (if isRateLimit msg then EvaluateRateLimit else EvaluateFailed msg),
        s\<lparr> isEvaluating := assign_index (isEvaluating c) index False \<rparr>)"
  by (simp add: submit_finish_def)

lemma submit_finish_success:
  "evaluate_try outcome = Inr ev \<Longrightarrow>
     submit_finish c index outcome s =
       (None,
        s\<lparr> evaluationResults := assign_index (evaluationResults c) index (Some ev),
           score := (if evalScore ev = Number 1 then score s + 1 else score s),
           isEvaluating := assign_index (isEvaluating c) index False \<rparr>)"
  by (simp add: submit_finish_def Let_def)

lemma submit_finish_flag:
  "at_index (isEvaluating (snd (submit_finish c index outcome s))) index = Item False"
  by (cases "evaluate_try outcome")
     (simp_all add: submit_finish_failure submit_finish_success at_index_assign_same)

lemma submit_start_iff:
  "submit_start s index \<noteq> None \<longleftrightarrow>
     truthy_content (pdfContent s) \<and> question_at s index \<noteq> None
     \<and> truthy_answer (at_index (userAnswers s) index)"
  by (simp add: submit_start_def)

lemma submit_start_ex:
  "(\<exists>y. submit_start s index = Some y) \<longleftrightarrow>
     truthy_content (pdfContent s) \<and> question_at s index \<noteq> None
     \<and> truthy_answer (at_index (userAnswers s) index)"
  by (simp add: submit_start_def)

lemma submit_start_value:
  "submit_start s index \<noteq> None \<Longrightarrow>
     submit_start s index = Some (s\<lparr> isEvaluating := assign_index (isEvaluating s) index True \<rparr>)"
  by (simp add: submit_start_def split: if_splits)

lemma handleSubmitAnswer_failure:
  assumes "evaluate_try outcome = Inl msg" and "submit_start s index \<noteq> None"
  shows "snd (handleSubmitAnswer s index outcome) =
           s\<lparr> isEvaluating := assign_index (isEvaluating s) index False \<rparr>"
  by (simp add: handleSubmitAnswer_def submit_start_value [OF assms(2)]
      submit_finish_failure [OF assms(1)])

text \<open>
  C4. After the \<open>await\<close>, \<open>isEvaluating[index]\<close> is \<open>false\<close> on every path, whatever the
  evaluator did. When the evaluation fails (the evaluator rejects, or the \<open>score\<close> of its
  response is not of type number), an alert is raised and \<open>evaluationResults\<close> and \<open>score\<close>
  are left as they are, so a result that was \<open>null\<close> remains \<open>null\<close>. For the whole handler
  on a session in which the evaluation starts: the handler accepts the same index again,
  and a submit button that was enabled is enabled again.
\<close>

theorem evaluation_failure_reverts:
  assumes "outcome = EvaluateRejects msg
           \<or> (\<exists>ev json. outcome = EvaluateResolves ev json \<and> \<not> score_is_number ev)"
  shows "at_index (isEvaluating (snd (submit_finish c index anyOutcome cur))) index = Item False
         \<and> fst (submit_finish c index outcome cur) \<noteq> None
         \<and> evaluationResults (snd (submit_finish c index outcome cur)) = evaluationResults cur
         \<and> score (snd (submit_finish c index outcome cur)) = score cur
         \<and> (submit_start s index \<noteq> None \<longrightarrow>
               evaluationResults (snd (handleSubmitAnswer s index outcome)) = evaluationResults s
               \<and> score (snd (handleSubmitAnswer s index outcome)) = score s
               \<and> at_index (isEvaluating (snd (handleSubmitAnswer s index outcome))) index = Item False
               \<and> submit_start (snd (handleSubmitAnswer s index outcome)) index \<noteq> None
               \<and> (\<not> submitDisabled s index \<longrightarrow>
                     \<not> submitDisabled (snd (handleSubmitAnswer s index outcome)) index))"
proof -
  from assms obtain m where m: "evaluate_try outcome = Inl m"
    using evaluate_try_failure by metis
  have flag: "at_index (isEvaluating (snd (submit_finish c index anyOutcome cur))) index = Item False"
    by (rule submit_finish_flag)
  have finish: "fst (submit_finish c index outcome cur) \<noteq> None
      \<and> evaluationResults (snd (submit_finish c index outcome cur)) = evaluationResults cur
      \<and> score (snd (submit_finish c index outcome cur)) = score cur"
    by (simp add: submit_finish_failure [OF m])
  have whole: "evaluationResults (snd (handleSubmitAnswer s index outcome)) = evaluationResults s
      \<and> score (snd (handleSubmitAnswer s index outcome)) = score s
      \<and> at_index (isEvaluating (snd (handleSubmitAnswer s index outcome))) index = Item False
      \<and> submit_start (snd (handleSubmitAnswer s index outcome)) index \<noteq> None
      \<and> (\<not> submitDisabled s index \<longrightarrow>
            \<not> submitDisabled (snd (handleSubmitAnswer s index outcome)) index)"
    if started: "submit_start s index \<noteq> None"
    using started
    by (simp add: handleSubmitAnswer_failure [OF m started] at_index_assign_same
        submit_start_iff submit_start_ex submitDisabled_def question_at_def)
  from flag finish whole show ?thesis by blast
qed

lemma unevaluatedSession_submit:
  "submit_start unevaluatedSession 0 \<noteq> None" "\<not> submitDisabled unevaluatedSession 0"
  by (simp_all add: submit_start_iff submit_start_ex submitDisabled_def unevaluatedSession_def truthy_content_def
      truthy_answer_def question_at_def at_index_def sampleQuestion_def optionsInvalid_def)

theorem evaluation_failure_reverts_witness:
  "evaluationResults (snd (handleSubmitAnswer unevaluatedSession 0 (EvaluateRejects ''429''))) = [Item None]
   \<and> score (snd (handleSubmitAnswer unevaluatedSession 0 (EvaluateRejects ''429''))) = 0
   \<and> at_index (isEvaluating (snd (handleSubmitAnswer unevaluatedSession 0 (EvaluateRejects ''429'')))) 0
       = Item False
   \<and> \<not> submitDisabled (snd (handleSubmitAnswer unevaluatedSession 0 (EvaluateRejects ''429''))) 0
   \<and> score (snd (handleSubmitAnswer unevaluatedSession 0
        (EvaluateResolves (Some \<lparr> evalScore = NotNumber \<rparr>) ''{}''))) = 0"
proof -
  have r: "evaluationResults unevaluatedSession = [Item None]" "score unevaluatedSession = 0"
    by (simp_all add: unevaluatedSession_def)
  have n: "\<not> score_is_number (Some \<lparr> evalScore = NotNumber \<rparr>)"
    by (simp add: score_is_number_def typeof_number_def)
  show ?thesis
    using evaluation_failure_reverts
      [of "EvaluateRejects ''429''" "''429''" unevaluatedSession 0 "EvaluateRejects ''429''"
        unevaluatedSession unevaluatedSession]
      evaluation_failure_reverts
      [of "EvaluateResolves (Some \<lparr> evalScore = NotNumber \<rparr>) ''{}''" "[]" unevaluatedSession 0
        "EvaluateRejects ''429''" unevaluatedSession unevaluatedSession]
      unevaluatedSession_submit r n
    by simp
qed

subsection \<open>Answer selection\<close>

text \<open>
  C2. Selecting an answer for a question whose result is not \<open>null\<close>, or which is being
  evaluated, changes nothing; selecting one for a rendered question with a \<open>null\<close> result
  that is not being evaluated runs \<open>handleAnswerChange\<close>, after which
  \<open>userAnswers[index]\<close> is the selected value.
\<close>

theorem selectAnswer_guarded:
  "(at_index (evaluationResults s) index \<noteq> Item None
      \<or> at_index (isEvaluating s) index = Item True \<longrightarrow> selectAnswer s index v = s)
   \<and> (question_at s index = Some q \<and> \<not> optionsInvalid q
        \<and> at_index (evaluationResults s) index = Item None
        \<and> at_index (isEvaluating s) index \<noteq> Item True \<longrightarrow>
          selectAnswer s index v = handleAnswerChange s index v
          \<and> at_index (userAnswers (selectAnswer s index v)) index = Item v)"
  by (auto simp add: selectAnswer_def radioDisabled_def handleAnswerChange_def
      at_index_assign_same split: option.splits)

theorem selectAnswer_guarded_witness:
  "selectAnswer answeredSession 0 ''b'' = answeredSession
   \<and> selectAnswer evaluatingSession 0 ''b'' = evaluatingSession
   \<and> at_index (userAnswers (selectAnswer unevaluatedSession 0 ''b'')) 0 = Item ''b''"
proof -
  have a: "at_index (evaluationResults answeredSession) 0 \<noteq> Item None"
    by (simp add: answeredSession_def at_index_def)
  have e: "at_index (isEvaluating evaluatingSession) 0 = Item True"
    by (simp add: evaluatingSession_def at_index_def)
  have u: "question_at unevaluatedSession 0 = Some sampleQuestion"
    "\<not> optionsInvalid sampleQuestion"
    "at_index (evaluationResults unevaluatedSession) 0 = Item None"
    "at_index (isEvaluating unevaluatedSession) 0 \<noteq> Item True"
    by (simp_all add: unevaluatedSession_def question_at_def at_index_def sampleQuestion_def
        optionsInvalid_def)
  show ?thesis
    using selectAnswer_guarded [of answeredSession 0 "''b''" sampleQuestion]
      selectAnswer_guarded [of evaluatingSession 0 "''b''" sampleQuestion]
      selectAnswer_guarded [of unevaluatedSession 0 "''b''" sampleQuestion] a e u
    by blast
qed

subsection \<open>Scoring\<close>

lemma handleSubmitAnswer_success:
  assumes "evaluate_try outcome = Inr ev" and "submit_start s index \<noteq> None"
  shows "snd (handleSubmitAnswer s index outcome) =
           s\<lparr> evaluationResults := assign_index (evaluationResults s) index (Some ev),
              score := (if evalScore ev = Number 1 then score s + 1 else score s),
              isEvaluating := assign_index (isEvaluating s) index False \<rparr>"
  by (simp add: handleSubmitAnswer_def submit_start_value [OF assms(2)]
      submit_finish_success [OF assms(1)])

text \<open>
  An evaluation that resolves with \<open>score === 1\<close> adds exactly one to the current total.
  Run on the session of the click, the handler stores the result at the index, after
  which the submit button and the radio group of that index are disabled.
\<close>

lemma single_evaluation_counts_once:
  assumes "evalScore ev = Number 1"
  shows "score (snd (submit_finish c index (EvaluateResolves (Some ev) json) cur)) = score cur + 1
         \<and> (submit_start s index \<noteq> None \<longrightarrow>
               score (snd (handleSubmitAnswer s index (EvaluateResolves (Some ev) json))) = score s + 1
               \<and> at_index (evaluationResults
                     (snd (handleSubmitAnswer s index (EvaluateResolves (Some ev) json)))) index
                   = Item (Some ev)
               \<and> submitDisabled (snd (handleSubmitAnswer s index (EvaluateResolves (Some ev) json))) index
               \<and> radioDisabled (snd (handleSubmitAnswer s index (EvaluateResolves (Some ev) json))) index)"
proof -
  have n: "typeof_number (evalScore ev)"
    using assms by (simp add: typeof_number_def)
  note ok = evaluate_try_success [OF n, of json]
  have finish: "score (snd (submit_finish c index (EvaluateResolves (Some ev) json) cur)) = score cur + 1"
    using assms by (simp add: submit_finish_success [OF ok])
  have whole: "score (snd (handleSubmitAnswer s index (EvaluateResolves (Some ev) json))) = score s + 1
      \<and> at_index (evaluationResults
            (snd (handleSubmitAnswer s index (EvaluateResolves (Some ev) json)))) index
          = Item (Some ev)
      \<and> submitDisabled (snd (handleSubmitAnswer s index (EvaluateResolves (Some ev) json))) index
      \<and> radioDisabled (snd (handleSubmitAnswer s index (EvaluateResolves (Some ev) json))) index"
    if started: "submit_start s index \<noteq> None"
    using assms
    by (simp add: handleSubmitAnswer_success [OF ok started] at_index_assign_same
        submitDisabled_def radioDisabled_def)
  from finish whole show ?thesis by blast
qed

subsection \<open>Completion\<close>



subsection \<open>A run with a late evaluation\<close>

lemma newQuestionCount_1_2:
  "newQuestionCount (codeUnits ''1'') = 1" "newQuestionCount (codeUnits ''2'') = 2"
  by (simp_all add: newQuestionCount_def codeUnits_def parseInt_def stripSign_def stripPrefix_def
      isWhiteSpace_def isRadixDigit_def digitValue_def digitsValue_def)

lemma uploadFile_pdfFile:
  "sessionAfter (uploadFile s pdfFile) =
     s\<lparr> isLoading := False, pdfContent := Some ''%PDF-1.4 text'', questions := None,
        userAnswers := [], evaluationResults := [], score := 0, isPdfUploaded := True \<rparr>"
  by (simp add: uploadFile_eq sessionAfter_def textReader_onload_def handleFileUpload_def
      pdfFile_def)

lemma handleGenerateQuestions_success:
  "truthy_content (pdfContent s) \<Longrightarrow> qs \<noteq> [] \<Longrightarrow>
     snd (handleGenerateQuestions s (GenerateResolves (Some \<lparr> generated = Some qs \<rparr>))) =
       s\<lparr> isLoading := False, questions := Some qs,
          userAnswers := array_fill (length qs) [],
          evaluationResults := array_fill (length qs) None,
          isEvaluating := array_fill (length qs) False, score := 0 \<rparr>"
  by (simp add: handleGenerateQuestions_def generate_start_def generate_finish_def
      generate_try_def)

lemma firstQuiz_value:
  "firstQuiz =
     \<lparr> pdfContent = Some ''%PDF-1.4 text'', questions = Some [sampleQuestion, sampleQuestion],
       userAnswers = [Item ''a'', Item []], isPdfUploaded = True,
       evaluationResults = [Item None, Item None], questionCount = 2, score = 0,
       isLoading = False, isEvaluating = [Item False, Item False] \<rparr>"
  by (simp add: firstQuiz_def uploadFile_pdfFile questionCount_onChange_def newQuestionCount_1_2
      twoQuestions_def handleGenerateQuestions_success truthy_content_def initialSession_def
      array_fill_def handleAnswerChange_def assign_index_def)

lemma submit_started_firstQuiz:
  "submit_started firstQuiz 0 =
     firstQuiz\<lparr> isEvaluating := [Item True, Item False] \<rparr>"
  by (simp add: submit_started_def submit_start_def firstQuiz_value truthy_content_def
      truthy_answer_def question_at_def at_index_def assign_index_def)

lemma secondQuiz_value:
  "secondQuiz =
     \<lparr> pdfContent = Some ''%PDF-1.4 text'', questions = Some [sampleQuestion],
       userAnswers = [Item []], isPdfUploaded = True,
       evaluationResults = [Item None], questionCount = 1, score = 0,
       isLoading = False, isEvaluating = [Item False] \<rparr>"
  by (simp add: secondQuiz_def submit_started_firstQuiz handleClear_def uploadFile_pdfFile
      questionCount_onChange_def newQuestionCount_1_2 oneQuestion_def
      handleGenerateQuestions_success truthy_content_def array_fill_def firstQuiz_value)

lemma lateEvaluation_value:
  "lateEvaluation =
     \<lparr> pdfContent = Some ''%PDF-1.4 text'', questions = Some [sampleQuestion],
       userAnswers = [Item []], isPdfUploaded = True,
       evaluationResults = [Item (Some \<lparr> evalScore = Number 1 \<rparr>), Item None],
       questionCount = 1, score = 1,
       isLoading = False, isEvaluating = [Item False, Item False] \<rparr>"
  by (simp add: lateEvaluation_def correctResponse_def submit_finish_success
      evaluate_try_success typeof_number_def firstQuiz_value secondQuiz_value assign_index_def)

text \<open>Every step of the run is one the rendered page offers.\<close>

lemma run_is_offered:
  "\<not> fileInputDisabled initialSession"
  "\<not> questionCountDisabled (sessionAfter (uploadFile initialSession pdfFile))"
  "\<not> generateDisabled (questionCount_onChange (sessionAfter (uploadFile initialSession pdfFile))
        (codeUnits ''2''))"
  "\<not> radioDisabled
       (snd (handleGenerateQuestions
          (questionCount_onChange (sessionAfter (uploadFile initialSession pdfFile))
             (codeUnits ''2''))
          twoQuestions)) 0"
  "\<not> submitDisabled firstQuiz 0"
  "clearAvailable (submit_started firstQuiz 0)"
  "\<not> fileInputDisabled (handleClear (submit_started firstQuiz 0))"
  "\<not> questionCountDisabled
       (sessionAfter (uploadFile (handleClear (submit_started firstQuiz 0)) pdfFile))"
  "\<not> generateDisabled (questionCount_onChange
       (sessionAfter (uploadFile (handleClear (submit_started firstQuiz 0)) pdfFile))
       (codeUnits ''1''))"
  by (simp_all add: fileInputDisabled_def questionCountDisabled_def generateDisabled_def
      clearAvailable_def submitDisabled_def radioDisabled_def uploadFile_pdfFile
      questionCount_onChange_def twoQuestions_def handleGenerateQuestions_success
      truthy_content_def array_fill_def initialSession_def handleClear_def
      submit_started_firstQuiz)
     (simp_all add: firstQuiz_value truthy_answer_def at_index_def question_at_def
      optionsInvalid_def sampleQuestion_def)


subsection \<open>Evaluations that overlap\<close>

lemma bothAnswered_value:
  "bothAnswered = firstQuiz\<lparr> userAnswers := [Item ''a'', Item ''b''] \<rparr>"
  by (simp add: bothAnswered_def handleAnswerChange_def firstQuiz_value assign_index_def)

lemma submit_started_bothAnswered:
  "submit_started bothAnswered 0 = bothAnswered\<lparr> isEvaluating := [Item True, Item False] \<rparr>"
  by (simp add: bothAnswered_value submit_started_def submit_start_def firstQuiz_value
      truthy_content_def truthy_answer_def question_at_def at_index_def assign_index_def)

lemma bothSubmitted_value:
  "bothSubmitted = bothAnswered\<lparr> isEvaluating := [Item True, Item True] \<rparr>"
  by (simp add: bothSubmitted_def submit_started_bothAnswered)
     (simp add: bothAnswered_value submit_started_def submit_start_def firstQuiz_value
      truthy_content_def truthy_answer_def question_at_def at_index_def assign_index_def)

lemma correctResponse_try: "evaluate_try correctResponse = Inr \<lparr> evalScore = Number 1 \<rparr>"
  by (simp add: correctResponse_def evaluate_try_success typeof_number_def)

lemma secondReturned_value:
  "secondReturned =
     bothAnswered\<lparr> evaluationResults := [Item None, Item (Some \<lparr> evalScore = Number 1 \<rparr>)],
                   score := 1, isEvaluating := [Item True, Item False] \<rparr>"
  by (simp add: secondReturned_def submit_finish_success [OF correctResponse_try]
      submit_started_bothAnswered bothSubmitted_value)
     (simp add: bothAnswered_value firstQuiz_value assign_index_def)

lemma bothReturned_value:
  "bothReturned =
     bothAnswered\<lparr> evaluationResults := [Item (Some \<lparr> evalScore = Number 1 \<rparr>), Item None],
                   score := 2, isEvaluating := [Item False, Item False] \<rparr>"
  by (simp add: bothReturned_def submit_finish_success [OF correctResponse_try]
      secondReturned_value)
     (simp add: bothAnswered_value firstQuiz_value assign_index_def)

text \<open>
  C1 fails on the code. Two questions are answered and both answers are submitted, each
  on an enabled button, before either evaluation returns. The evaluation of the second
  returns first, with \<open>score === 1\<close>: its result is stored and the total is 1. The
  evaluation of the first returns next; the rest of its handler writes its own copy of
  \<open>evaluationResults\<close>, taken at its click, when the second had no result. The result of
  the second is lost, the total is 2, and the submit button of the second is enabled
  again. Submitted and evaluated as correct a second time, the same index is counted a
  second time: two questions have a total of three.
\<close>

theorem overlapping_evaluations_count_twice:
  "questions bothReturned = Some [sampleQuestion, sampleQuestion]
   \<and> \<not> radioDisabled firstQuiz 1
   \<and> \<not> submitDisabled bothAnswered 0
   \<and> \<not> submitDisabled (submit_started bothAnswered 0) 1
   \<and> at_index (evaluationResults secondReturned) 1 = Item (Some \<lparr> evalScore = Number 1 \<rparr>)
   \<and> score secondReturned = 1
   \<and> at_index (evaluationResults bothReturned) 1 = Item None
   \<and> score bothReturned = 2
   \<and> \<not> submitDisabled bothReturned 1
   \<and> score (snd (handleSubmitAnswer bothReturned 1 correctResponse)) = 3"
proof -
  have offered: "\<not> radioDisabled firstQuiz 1" "\<not> submitDisabled bothAnswered 0"
    "\<not> submitDisabled (submit_started bothAnswered 0) 1" "\<not> submitDisabled bothReturned 1"
    by (simp_all add: submit_started_bothAnswered bothReturned_value)
       (simp_all add: radioDisabled_def submitDisabled_def bothAnswered_value firstQuiz_value
        truthy_answer_def question_at_def at_index_def optionsInvalid_def sampleQuestion_def)
  have started: "submit_start bothReturned 1 \<noteq> None"
    by (simp add: bothReturned_value bothAnswered_value firstQuiz_value submit_start_ex
        truthy_content_def truthy_answer_def question_at_def at_index_def)
  have again: "score (snd (handleSubmitAnswer bothReturned 1 correctResponse)) = score bothReturned + 1"
    by (simp only: handleSubmitAnswer_success [OF correctResponse_try started]) simp
  have states: "questions bothReturned = Some [sampleQuestion, sampleQuestion]"
    "at_index (evaluationResults secondReturned) 1 = Item (Some \<lparr> evalScore = Number 1 \<rparr>)"
    "score secondReturned = 1" "at_index (evaluationResults bothReturned) 1 = Item None"
    "score bothReturned = 2"
    by (simp_all add: bothReturned_value secondReturned_value bothAnswered_value firstQuiz_value
        at_index_def)
  from offered again states show ?thesis by simp
qed

theorem overlapping_evaluations_count_twice_witness:
  "score (snd (handleSubmitAnswer bothReturned 1 correctResponse)) = 3
   \<and> length [sampleQuestion, sampleQuestion] = 2
   \<and> questions bothReturned = Some [sampleQuestion, sampleQuestion]"
  using overlapping_evaluations_count_twice by simp

subsection \<open>The lengths of the arrays\<close>

text \<open>
  Run on the session of the click, every handler keeps one slot per question in each
  array: \<open>handleSubmitAnswer\<close> assigns only at an index that has a question.
\<close>

lemma lengthsAgree_handlers:
  "lengthsAgree (handleClear s)"
  "lengthsAgree (handleFileUpload s (Some f))"
  "lengthsAgree (sessionAfter (uploadFile s f))"
  "lengthsAgree (snd (generate_finish gen s))"
  "lengthsAgree s \<Longrightarrow> lengthsAgree (questionCount_onChange s v)"
  "lengthsAgree s \<Longrightarrow> lengthsAgree (selectAnswer s index a)"
  "lengthsAgree s \<Longrightarrow> lengthsAgree (submit_started s index)"
  "lengthsAgree s \<Longrightarrow> lengthsAgree (snd (handleSubmitAnswer s index outcome))"
proof -
  show "lengthsAgree (handleClear s)" "lengthsAgree (handleFileUpload s (Some f))"
    by (simp_all add: lengthsAgree_def handleClear_def handleFileUpload_def)
  show "lengthsAgree (sessionAfter (uploadFile s f))"
    by (simp add: lengthsAgree_def uploadFile_eq sessionAfter_def textReader_onload_def
        handleFileUpload_def handleClear_def)
  show "lengthsAgree (snd (generate_finish gen s))"
    by (simp add: lengthsAgree_def generate_finish_def array_fill_def split: sum.splits)
  show "lengthsAgree s \<Longrightarrow> lengthsAgree (questionCount_onChange s v)"
    by (simp add: lengthsAgree_def questionCount_onChange_def split: option.splits)
  show "lengthsAgree s \<Longrightarrow> lengthsAgree (selectAnswer s index a)"
    by (auto simp add: lengthsAgree_def selectAnswer_def handleAnswerChange_def question_at_def
        length_assign_index split: option.splits if_splits)
  show "lengthsAgree s \<Longrightarrow> lengthsAgree (submit_started s index)"
    by (auto simp add: lengthsAgree_def submit_started_def submit_start_def question_at_def
        length_assign_index split: option.splits if_splits)
  show "lengthsAgree s \<Longrightarrow> lengthsAgree (snd (handleSubmitAnswer s index outcome))"
    by (cases "evaluate_try outcome")
       (auto simp add: lengthsAgree_def handleSubmitAnswer_def submit_start_def question_at_def
        submit_finish_failure submit_finish_success length_assign_index
        split: option.splits if_splits)
qed

text \<open>
  C3 fails on the code. In the run above \<open>secondQuiz\<close> has one question and one slot in
  each array; the late completion of the evaluation submitted in \<open>firstQuiz\<close> then replaces
  \<open>evaluationResults\<close> and \<open>isEvaluating\<close> by copies of the two-slot arrays of
  \<open>firstQuiz\<close>, while \<open>questions\<close> and \<open>userAnswers\<close> keep one.
\<close>

theorem late_evaluation_breaks_lengths:
  "lengthsAgree firstQuiz \<and> lengthsAgree secondQuiz
   \<and> questions lateEvaluation = Some [sampleQuestion]
   \<and> length (userAnswers lateEvaluation) = 1
   \<and> length (evaluationResults lateEvaluation) = 2
   \<and> length (isEvaluating lateEvaluation) = 2
   \<and> \<not> lengthsAgree lateEvaluation"
  by (simp add: lengthsAgree_def firstQuiz_value secondQuiz_value lateEvaluation_value)

theorem late_evaluation_breaks_lengths_witness:
  "length (evaluationResults lateEvaluation) \<noteq> length [sampleQuestion]
   \<and> \<not> lengthsAgree lateEvaluation"
  using late_evaluation_breaks_lengths by simp

end
